theory Spec2Isabelle
  imports Main "HOL-Library.Word"
begin

section \<open>Go integers, durations and instants\<close>

text \<open>
  Go's \<open>int\<close> (on the 64-bit targets the server is built for) and \<open>time.Duration\<close>
  (an \<open>int64\<close> count of nanoseconds) are modelled as \<open>int\<close> with the two's-complement
  wrap-around written out.
\<close>

type_synonym go_int = int
type_synonym Duration = int

definition wrap64 :: "int \<Rightarrow> int" where
  "wrap64 x = (x + 2 ^ 63) mod 2 ^ 64 - 2 ^ 63"

definition maxDuration :: Duration where
  "maxDuration = 2 ^ 63 - 1"

definition minDuration :: Duration where
  "minDuration = - (2 ^ 63)"

definition Second :: Duration where
  "Second = 1000000000"

definition Millisecond :: Duration where
  "Millisecond = 1000000"

text \<open>\<open>uint(x)\<close> for an \<open>int\<close> \<open>x\<close>: the same 64 bits read as unsigned.\<close>

definition uint_conv :: "go_int \<Rightarrow> nat" where
  "uint_conv x = nat (x mod 2 ^ 64)"

text \<open>
  \<open>x << s\<close> on an \<open>int64\<close> with an unsigned count: bits shifted out are lost, and a
  count of 64 or more gives 0.
\<close>

definition shl64 :: "int \<Rightarrow> nat \<Rightarrow> int" where
  "shl64 x s = (if 64 \<le> s then 0 else wrap64 (x * 2 ^ s))"

text \<open>
  An instant is a count of nanoseconds since the zero \<open>time.Time\<close>, so \<open>time.Time{}\<close>
  is 0. \<open>t.Sub(u)\<close> saturates at the largest and smallest \<open>Duration\<close>;
  \<open>time.Since(u)\<close> is \<open>time.Now().Sub(u)\<close>.
\<close>

type_synonym Time = int

definition Time_Sub :: "Time \<Rightarrow> Time \<Rightarrow> Duration" where
  "Time_Sub t u =
     (if maxDuration < t - u then maxDuration
      else if t - u < minDuration then minDuration
      else t - u)"

definition Since :: "Time \<Rightarrow> Time \<Rightarrow> Duration" where
  "Since now u = Time_Sub now u"

section \<open>Log watcher manager\<close>

subsection \<open>Reconnect backoff\<close>

definition baseDelay :: Duration where
  "baseDelay = 5 * Second"

definition maxDelay :: Duration where
  "maxDelay = 60 * Second"

text \<open>
  \<open>calculateReconnectDelay\<close>: the untyped constant 1 takes the type \<open>time.Duration\<close>
  of the conversion around the shift, so the shift and the product are both \<open>int64\<close>
  operations.
\<close>

definition calculateReconnectDelay :: "go_int \<Rightarrow> Duration" where
  "calculateReconnectDelay attempts =
     (if attempts = 0 then 0
      else
        let delay = wrap64 (baseDelay * shl64 1 (uint_conv (wrap64 (attempts - 1))))
        in if maxDelay < delay then maxDelay else delay)"

subsection \<open>Log source configuration and construction\<close>

type_synonym LogSourceType = string

text \<open>
  Modelled from the spec: the three values of \<open>LogSourceType\<close>. Their declaration is in
  a file of the package that is not among the sources; the server catalog gives the
  column as \<open>log_source_type \<in> {local, sftp, ftp}\<close>.
\<close>

definition LogSourceTypeLocal :: LogSourceType where
  "LogSourceTypeLocal = ''local''"

definition LogSourceTypeSFTP :: LogSourceType where
  "LogSourceTypeSFTP = ''sftp''"

definition LogSourceTypeFTP :: LogSourceType where
  "LogSourceTypeFTP = ''ftp''"

text \<open>The fields of \<open>LogSourceConfig\<close> are the ones the manager reads and writes.\<close>

record LogSourceConfig =
  Type :: LogSourceType
  FilePath :: string
  Host :: string
  Port :: go_int
  Username :: string
  Password :: string
  PollFrequency :: Duration
  ReadFromStart :: bool

text \<open>
  A log source is represented by the constructor call that made it, with the arguments
  in the order of the call. What the constructors do with their arguments is outside
  the manager.
\<close>

datatype LogSource =
    NewLocalFileSource string
  | NewSFTPSource string go_int string string string Duration bool
  | NewFTPSource string go_int string string string Duration bool

text \<open>
  Errors of the manager. \<open>ErrorsNew msg\<close> is \<open>errors.New(msg)\<close>; the other
  constructors stand for the \<open>fmt.Errorf\<close> calls, keeping the formatted values and,
  for \<open>%w\<close>, the wrapped error.
\<close>

datatype lw_error =
    ErrorsNew string
  | UnsupportedLogSourceType LogSourceType
  | ReconnectionDelayed Duration
  | FailedToReconnect lw_error
  | FailedToCreate lw_error

definition createLogSource :: "LogSourceConfig \<Rightarrow> lw_error + LogSource" where
  "createLogSource config =
     (if Type config = LogSourceTypeLocal then
        (if FilePath config = [] then
           Inl (ErrorsNew ''file path is required for local log source'')
         else Inr (NewLocalFileSource (FilePath config)))
      else if Type config = LogSourceTypeSFTP then
        (if Host config = [] \<or> Username config = [] \<or> FilePath config = [] then
           Inl (ErrorsNew ''host, username, and file path are required for SFTP log source'')
         else if Password config = [] then
           Inl (ErrorsNew ''password is required for SFTP log source'')
         else
           let config1 = (if Port config = 0 then config\<lparr>Port := 22\<rparr> else config);
               config2 = (if PollFrequency config1 = 0
                          then config1\<lparr>PollFrequency := 5 * Second\<rparr> else config1)
           in Inr (NewSFTPSource (Host config2) (Port config2) (Username config2)
                     (Password config2) (FilePath config2) (PollFrequency config2)
                     (ReadFromStart config2)))
      else if Type config = LogSourceTypeFTP then
        (if Host config = [] \<or> Username config = [] \<or> Password config = []
            \<or> FilePath config = [] then
           Inl (ErrorsNew
             ''host, username, password, and file path are required for FTP log source'')
         else
           let config1 = (if Port config = 0 then config\<lparr>Port := 21\<rparr> else config);
               config2 = (if PollFrequency config1 = 0
                          then config1\<lparr>PollFrequency := 5 * Second\<rparr> else config1)
           in Inr (NewFTPSource (Host config2) (Port config2) (Username config2)
                     (Password config2) (FilePath config2) (PollFrequency config2)
                     (ReadFromStart config2)))
      else Inl (UnsupportedLogSourceType (Type config)))"

subsection \<open>Connections and the registry\<close>

type_synonym UUID = "128 word"

text \<open>
  The context a watcher goroutine was started with: the one derived for the connection
  (whose cancel function the record keeps) or the manager's own.
\<close>

datatype watch_ctx = ConnectionCtx | ManagerCtx

text \<open>
  \<open>ServerLogConnection\<close>. The event store, the metrics and the mutex play no part in
  connecting and disconnecting and are left out. Three fields record what the manager
  did to the record's collaborators: how often \<open>conn.cancel()\<close> was called, which
  sources were closed, and which watcher goroutines were started (with their context
  and the source they read).
\<close>

record ServerLogConnection =
  ServerID :: UUID
  LogSource :: "LogSource option"
  Config :: LogSourceConfig
  Connected :: bool
  LastUsed :: Time
  reconnectAttempts :: go_int
  lastReconnectTime :: Time
  cancel_calls :: nat
  closed_sources :: "LogSource list"
  watchers :: "(watch_ctx \<times> LogSource) list"

record LogwatcherManager =
  connections :: "UUID \<Rightarrow> ServerLogConnection option"
  ctx_cancelled :: bool

definition NewLogwatcherManager :: LogwatcherManager where
  "NewLogwatcherManager = \<lparr>connections = (\<lambda>_. None), ctx_cancelled = False\<rparr>"

text \<open>
  \<open>ConnectToServer\<close>. The argument \<open>clock\<close> gives the readings of the wall clock
  during the call: \<open>clock k\<close> is what the \<open>k\<close>-th call of \<open>time.Now\<close> or
  \<open>time.Since\<close> on the path taken sees (counted from 0). The result is the returned
  error (\<open>None\<close> for \<open>nil\<close>) and the manager afterwards. \<open>createLogSource\<close> works on
  its own copy of the config, so the record keeps the caller's config.
\<close>

definition ConnectToServer ::
  "LogwatcherManager \<Rightarrow> UUID \<Rightarrow> LogSourceConfig \<Rightarrow> (nat \<Rightarrow> Time)
     \<Rightarrow> lw_error option \<times> LogwatcherManager" where
  "ConnectToServer m serverID config clock =
     (case connections m serverID of
        Some conn \<Rightarrow>
          if \<not> Connected conn then
            let delay = calculateReconnectDelay (reconnectAttempts conn) in
            if Since (clock 0) (lastReconnectTime conn) < delay then
              let remainingDelay = wrap64 (delay - Since (clock 1) (lastReconnectTime conn))
              in (Some (ReconnectionDelayed remainingDelay), m)
            else
              let conn1 = conn\<lparr>reconnectAttempts := wrap64 (reconnectAttempts conn + 1),
                               lastReconnectTime := clock 1\<rparr>
              in (case createLogSource config of
                    Inl err \<Rightarrow>
                      (Some (FailedToReconnect err),
                       m\<lparr>connections := (connections m)(serverID \<mapsto> conn1)\<rparr>)
                  | Inr logSource \<Rightarrow>
                      let conn2 = conn1\<lparr>
                            closed_sources :=
                              (case LogSource conn1 of
                                 None \<Rightarrow> closed_sources conn1
                               | Some old \<Rightarrow> closed_sources conn1 @ [old]),
                            LogSource := Some logSource,
                            Config := config,
                            Connected := True,
                            LastUsed := clock 2,
                            reconnectAttempts := 0,
                            watchers := watchers conn1 @ [(ManagerCtx, logSource)]\<rparr>
                      in (None, m\<lparr>connections := (connections m)(serverID \<mapsto> conn2)\<rparr>))
          else
            (None,
             m\<lparr>connections := (connections m)(serverID \<mapsto> conn\<lparr>LastUsed := clock 0\<rparr>)\<rparr>)
      | None \<Rightarrow>
          (case createLogSource config of
             Inl err \<Rightarrow> (Some (FailedToCreate err), m)
           | Inr logSource \<Rightarrow>
               (None,
                m\<lparr>connections := (connections m)(serverID \<mapsto>
                     \<lparr>ServerID = serverID,
                      LogSource = Some logSource,
                      Config = config,
                      Connected = True,
                      LastUsed = clock 0,
                      reconnectAttempts = 0,
                      lastReconnectTime = 0,
                      cancel_calls = 0,
                      closed_sources = [],
                      watchers = [(ConnectionCtx, logSource)]\<rparr>)\<rparr>)))"

text \<open>The part of \<open>DisconnectFromServer\<close> and of the shutdown loop that stops a record.\<close>

definition stop_connection :: "ServerLogConnection \<Rightarrow> ServerLogConnection" where
  "stop_connection conn =
     conn\<lparr>cancel_calls := Suc (cancel_calls conn),
          closed_sources :=
            (case LogSource conn of
               None \<Rightarrow> closed_sources conn
             | Some src \<Rightarrow> closed_sources conn @ [src]),
          Connected := False\<rparr>"

definition DisconnectFromServer ::
  "LogwatcherManager \<Rightarrow> UUID \<Rightarrow> lw_error option \<times> LogwatcherManager" where
  "DisconnectFromServer m serverID =
     (case connections m serverID of
        None \<Rightarrow> (Some (ErrorsNew ''server log connection not found''), m)
      | Some conn \<Rightarrow>
          if \<not> Connected conn then
            (Some (ErrorsNew ''server log connection already disconnected''), m)
          else
            (None, m\<lparr>connections := (connections m)(serverID \<mapsto> stop_connection conn)\<rparr>))"

text \<open>
  \<open>cleanupAllConnections\<close> visits every record of the map; the visits are independent
  of each other, so the order of the iteration does not show in the result.
\<close>

definition cleanupAllConnections :: "LogwatcherManager \<Rightarrow> LogwatcherManager" where
  "cleanupAllConnections m =
     m\<lparr>connections := (\<lambda>serverID.
          case connections m serverID of
            None \<Rightarrow> None
          | Some conn \<Rightarrow> Some (if Connected conn then stop_connection conn else conn))\<rparr>"

text \<open>\<open>Shutdown\<close> cancels the manager's context.\<close>

definition Shutdown :: "LogwatcherManager \<Rightarrow> LogwatcherManager" where
  "Shutdown m = m\<lparr>ctx_cancelled := True\<rparr>"

text \<open>
  \<open>StartConnectionManager\<close> blocks until the manager's context is done and then cleans
  up: \<open>None\<close> while it is still blocked.
\<close>

definition StartConnectionManager :: "LogwatcherManager \<Rightarrow> LogwatcherManager option" where
  "StartConnectionManager m =
     (if ctx_cancelled m then Some (cleanupAllConnections m) else None)"

record ServerConnectionStatus =
  status_Connected :: bool
  status_Config :: LogSourceConfig
  status_LastUsed :: Time

definition GetServerConnectionStatus ::
  "LogwatcherManager \<Rightarrow> UUID \<Rightarrow> lw_error + ServerConnectionStatus" where
  "GetServerConnectionStatus m serverID =
     (case connections m serverID of
        None \<Rightarrow> Inl (ErrorsNew ''server connection not found'')
      | Some conn \<Rightarrow>
          Inr \<lparr>status_Connected = Connected conn,
               status_Config = Config conn,
               status_LastUsed = LastUsed conn\<rparr>)"

subsection \<open>Sequences of calls on one server\<close>

datatype call = Connect LogSourceConfig "nat \<Rightarrow> Time" | Disconnect

fun is_Connect :: "call \<Rightarrow> bool" where
  "is_Connect (Connect _ _) = True"
| "is_Connect Disconnect = False"

fun do_call :: "UUID \<Rightarrow> LogwatcherManager \<Rightarrow> call \<Rightarrow> lw_error option \<times> LogwatcherManager" where
  "do_call serverID m (Connect config clock) = ConnectToServer m serverID config clock"
| "do_call serverID m Disconnect = DisconnectFromServer m serverID"

text \<open>The calls are made one after the other; the result lists each call with its error.\<close>

fun run_calls ::
  "UUID \<Rightarrow> LogwatcherManager \<Rightarrow> call list \<Rightarrow> (call \<times> lw_error option) list \<times> LogwatcherManager" where
  "run_calls serverID m [] = ([], m)"
| "run_calls serverID m (c # cs) =
     (case do_call serverID m c of
        (err, m') \<Rightarrow>
          (case run_calls serverID m' cs of
             (log, m'') \<Rightarrow> ((c, err) # log, m'')))"

definition succeeded_connect :: "call \<times> lw_error option \<Rightarrow> bool" where
  "succeeded_connect e = (is_Connect (fst e) \<and> snd e = None)"

text \<open>Whether the registry holds a record for the server, and whether it is connected.\<close>

definition record_present :: "LogwatcherManager \<Rightarrow> UUID \<Rightarrow> bool" where
  "record_present m serverID = (connections m serverID \<noteq> None)"


text \<open>
  A context is done once it has been cancelled. The context of a connection is derived
  from the manager's by \<open>context.WithCancel\<close>: it is done when the record's cancel
  function has been called or the manager's context is done.
\<close>

definition ctx_done :: "LogwatcherManager \<Rightarrow> ServerLogConnection \<Rightarrow> watch_ctx \<Rightarrow> bool" where
  "ctx_done m conn c =
     (case c of
        ConnectionCtx \<Rightarrow> 0 < cancel_calls conn \<or> ctx_cancelled m
      | ManagerCtx \<Rightarrow> ctx_cancelled m)"

text \<open>Whether the context of the watcher started last for the server is done.\<close>

definition watcher_ctx_done :: "LogwatcherManager \<Rightarrow> UUID \<Rightarrow> bool" where
  "watcher_ctx_done m serverID =
     (case connections m serverID of
        None \<Rightarrow> False
      | Some conn \<Rightarrow>
          watchers conn \<noteq> [] \<and> ctx_done m conn (fst (last (watchers conn))))"


text \<open>A clock that shows the same instant at every reading of a call.\<close>

definition fixed_clock :: "Time \<Rightarrow> nat \<Rightarrow> Time" where
  "fixed_clock t k = t"

section \<open>Server status probes\<close>

subsection \<open>Strings\<close>

text \<open>
  Strings are byte lists. The functions of package \<open>strings\<close> are modelled on ASCII:
  \<open>ToLower\<close> maps \<open>A\<close>..\<open>Z\<close> and \<open>TrimSpace\<close> strips tab, line feed, vertical tab,
  form feed, carriage return and space; other bytes stay as they are.
\<close>

definition lower_byte :: "char \<Rightarrow> char" where
  "lower_byte c =
     (case map_of (zip ''ABCDEFGHIJKLMNOPQRSTUVWXYZ'' ''abcdefghijklmnopqrstuvwxyz'') c of
        None \<Rightarrow> c
      | Some l \<Rightarrow> l)"

definition ToLower :: "string \<Rightarrow> string" where
  "ToLower s = map lower_byte s"

definition is_space :: "char \<Rightarrow> bool" where
  "is_space c = (c \<in> set [CHR 0x09, CHR 0x0A, CHR 0x0B, CHR 0x0C, CHR 0x0D, CHR '' ''])"

definition TrimSpace :: "string \<Rightarrow> string" where
  "TrimSpace s = rev (dropWhile is_space (rev (dropWhile is_space s)))"

fun HasPrefix :: "string \<Rightarrow> string \<Rightarrow> bool" where
  "HasPrefix s [] = True"
| "HasPrefix [] (p # ps) = False"
| "HasPrefix (c # cs) (p # ps) = (c = p \<and> HasPrefix cs ps)"

fun Contains :: "string \<Rightarrow> string \<Rightarrow> bool" where
  "Contains [] substr = (substr = [])"
| "Contains (c # cs) substr = (HasPrefix (c # cs) substr \<or> Contains cs substr)"

text \<open>\<open>strconv.Itoa\<close>: the decimal digits, with a minus sign for a negative number.\<close>

function digits :: "nat \<Rightarrow> string" where
  "digits n =
     (if n < 10 then [''0123456789'' ! n]
      else digits (n div 10) @ [''0123456789'' ! (n mod 10)])"
  by pat_completeness auto
termination
  by (relation "measure id") auto

declare digits.simps [simp del]

definition Itoa :: "go_int \<Rightarrow> string" where
  "Itoa i = (if i < 0 then CHR ''-'' # digits (nat (- i)) else digits (nat i))"

text \<open>\<open>net.JoinHostPort\<close>: a host with a colon in it is put in brackets.\<close>

definition JoinHostPort :: "string \<Rightarrow> string \<Rightarrow> string" where
  "JoinHostPort host port =
     (if CHR '':'' \<in> set host then ''['' @ host @ '']:'' @ port else host @ '':'' @ port)"

subsection \<open>Errors and the outside world\<close>

text \<open>
  A non-nil \<open>error\<close> as the probes see it: its text (\<open>err.Error()\<close>), whether
  \<open>errors.Is(err, io.EOF)\<close> holds, and whether it is a \<open>net.Error\<close> whose
  \<open>Timeout()\<close> is true. A nil error is \<open>None\<close>.
\<close>

datatype go_error = GoError (Error: string) (Is_EOF: bool) (Timeout: bool)

text \<open>
  The file system and the network answer the probes. Each field gives the outcome of
  one library call as a function of the call's arguments; a connection or client is
  named by the address it was dialled to, a file by its path.
\<close>

record world =
  os_Stat :: "string \<Rightarrow> go_error + bool"
  os_Open :: "string \<Rightarrow> go_error option"
  file_Read :: "string \<Rightarrow> go_error option"
  ssh_Dial :: "string \<Rightarrow> string \<Rightarrow> string \<Rightarrow> string \<Rightarrow> go_error option"
  sftp_NewClient :: "string \<Rightarrow> go_error option"
  sftp_Stat :: "string \<Rightarrow> string \<Rightarrow> go_error option"
  ftp_Dial :: "string \<Rightarrow> Duration \<Rightarrow> go_error option"
  ftp_Login :: "string \<Rightarrow> string \<Rightarrow> string \<Rightarrow> go_error option"
  ftp_FileSize :: "string \<Rightarrow> string \<Rightarrow> go_error option"
  net_DialTimeout :: "string \<Rightarrow> string \<Rightarrow> Duration \<Rightarrow> go_error option"
  conn_SetDeadline :: "string \<Rightarrow> Duration \<Rightarrow> go_error option"
  conn_Write :: "string \<Rightarrow> nat list \<Rightarrow> go_error option"
  conn_Read :: "string \<Rightarrow> go_error option"

definition statusUDPProbeTimeout :: Duration where
  "statusUDPProbeTimeout = 1500 * Millisecond"

definition statusLogProbeTimeout :: Duration where
  "statusLogProbeTimeout = 5 * Second"

subsection \<open>Log transport probe\<close>

text \<open>The fields of \<open>models.Server\<close> that the status probes read.\<close>

record Server =
  Id :: UUID
  IpAddress :: string
  GamePort :: go_int
  LogSourceType :: "string option"
  LogFilePath :: "string option"
  LogHost :: "string option"
  LogPort :: "go_int option"
  LogUsername :: "string option"
  LogPassword :: "string option"

record logTransportStatus =
  Enabled :: bool
  SourceType :: string
  Healthy :: bool
  Reason :: string

definition trimmedStringPtr :: "string option \<Rightarrow> string" where
  "trimmedStringPtr v = (case v of None \<Rightarrow> [] | Some s \<Rightarrow> TrimSpace s)"

definition mapProbeErrorReason :: "go_error option \<Rightarrow> string" where
  "mapProbeErrorReason err =
     (case err of
        None \<Rightarrow> []
      | Some e \<Rightarrow>
          let errText = ToLower (Error e) in
          if Contains errText ''permission'' \<or> Contains errText ''denied'' then
            ''permission_denied''
          else if Contains errText ''auth'' \<or> Contains errText ''login''
                  \<or> Contains errText ''password'' then
            ''authentication_failed''
          else if Contains errText ''no such file'' \<or> Contains errText ''not found''
                  \<or> Contains errText ''cannot find'' then
            ''log_file_not_found''
          else if Contains errText ''timeout'' \<or> Contains errText ''deadline exceeded'' then
            ''timeout''
          else if Contains errText ''refused'' \<or> Contains errText ''unreachable''
                  \<or> Contains errText ''reset'' then
            ''connection_failed''
          else ''probe_failed'')"

definition buildBaseLogTransportStatus :: "Server \<Rightarrow> logTransportStatus" where
  "buildBaseLogTransportStatus server =
     (let sourceType = trimmedStringPtr (LogSourceType server);
          filePath = trimmedStringPtr (LogFilePath server)
      in if sourceType = [] \<or> filePath = [] then
           \<lparr>Enabled = False, SourceType = [], Healthy = False, Reason = ''not_configured''\<rparr>
         else
           \<lparr>Enabled = True, SourceType = ToLower sourceType, Healthy = False, Reason = []\<rparr>)"

definition probe_error :: "logTransportStatus \<Rightarrow> go_error \<Rightarrow> logTransportStatus" where
  "probe_error status err = status\<lparr>Healthy := False, Reason := mapProbeErrorReason (Some err)\<rparr>"

definition probe_healthy :: "logTransportStatus \<Rightarrow> logTransportStatus" where
  "probe_healthy status = status\<lparr>Healthy := True, Reason := []\<rparr>"

definition probeLocalLogTransport ::
  "world \<Rightarrow> string \<Rightarrow> logTransportStatus \<Rightarrow> logTransportStatus" where
  "probeLocalLogTransport w filePath status =
     (case os_Stat w filePath of
        Inl err \<Rightarrow> probe_error status err
      | Inr isDir \<Rightarrow>
          if isDir then status\<lparr>Healthy := False, Reason := ''log_path_is_directory''\<rparr>
          else
            (case os_Open w filePath of
               Some err \<Rightarrow> probe_error status err
             | None \<Rightarrow>
                 (case file_Read w filePath of
                    None \<Rightarrow> probe_healthy status
                  | Some err \<Rightarrow>
                      if \<not> Is_EOF err then probe_error status err
                      else probe_healthy status)))"

definition probe_port :: "go_int \<Rightarrow> go_int option \<Rightarrow> go_int" where
  "probe_port dflt logPort =
     (case logPort of None \<Rightarrow> dflt | Some p \<Rightarrow> if 0 < p then p else dflt)"

definition probeSFTPLogTransport ::
  "world \<Rightarrow> Server \<Rightarrow> string \<Rightarrow> logTransportStatus \<Rightarrow> logTransportStatus" where
  "probeSFTPLogTransport w server filePath status =
     (let host = trimmedStringPtr (LogHost server);
          username = trimmedStringPtr (LogUsername server);
          password = trimmedStringPtr (LogPassword server)
      in if host = [] \<or> username = [] \<or> password = [] then
           status\<lparr>Healthy := False, Reason := ''missing_sftp_credentials''\<rparr>
         else
           let port = probe_port 22 (LogPort server);
               addr = JoinHostPort host (Itoa port)
           in (case ssh_Dial w ''tcp'' addr username password of
                 Some err \<Rightarrow> probe_error status err
               | None \<Rightarrow>
                   (case sftp_NewClient w addr of
                      Some err \<Rightarrow> probe_error status err
                    | None \<Rightarrow>
                        (case sftp_Stat w addr filePath of
                           Some err \<Rightarrow> probe_error status err
                         | None \<Rightarrow> probe_healthy status))))"

definition probeFTPLogTransport ::
  "world \<Rightarrow> Server \<Rightarrow> string \<Rightarrow> logTransportStatus \<Rightarrow> logTransportStatus" where
  "probeFTPLogTransport w server filePath status =
     (let host = trimmedStringPtr (LogHost server);
          username = trimmedStringPtr (LogUsername server);
          password = trimmedStringPtr (LogPassword server)
      in if host = [] \<or> username = [] \<or> password = [] then
           status\<lparr>Healthy := False, Reason := ''missing_ftp_credentials''\<rparr>
         else
           let port = probe_port 21 (LogPort server);
               addr = JoinHostPort host (Itoa port)
           in (case ftp_Dial w addr statusLogProbeTimeout of
                 Some err \<Rightarrow> probe_error status err
               | None \<Rightarrow>
                   (case ftp_Login w addr username password of
                      Some err \<Rightarrow> probe_error status err
                    | None \<Rightarrow>
                        (case ftp_FileSize w addr filePath of
                           Some err \<Rightarrow> probe_error status err
                         | None \<Rightarrow> probe_healthy status))))"

text \<open>
  The part of \<open>testLogTransportFunctionality\<close> that consults the log watcher manager
  (\<open>None\<close> when the dependency is nil).
\<close>

definition consult_logwatcher ::
  "LogwatcherManager option \<Rightarrow> UUID \<Rightarrow> bool \<Rightarrow> logTransportStatus \<Rightarrow> logTransportStatus" where
  "consult_logwatcher lm serverID includeLogProbe status =
     (case lm of
        None \<Rightarrow> status
      | Some m \<Rightarrow>
          (case GetServerConnectionStatus m serverID of
             Inl err \<Rightarrow> status
           | Inr connStatus \<Rightarrow>
               let status1 = status\<lparr>Healthy := status_Connected connStatus\<rparr>;
                   status2 = (if \<not> Healthy status1 \<and> \<not> includeLogProbe
                              then status1\<lparr>Reason := ''logwatcher_disconnected''\<rparr>
                              else status1)
               in if Healthy status2 then status2\<lparr>Reason := []\<rparr> else status2))"

definition testLogTransportFunctionality ::
  "world \<Rightarrow> LogwatcherManager option \<Rightarrow> Server \<Rightarrow> bool \<Rightarrow> logTransportStatus" where
  "testLogTransportFunctionality w lm server includeLogProbe =
     (let status = buildBaseLogTransportStatus server in
      if \<not> Enabled status then status
      else
        let status1 = consult_logwatcher lm (Id server) includeLogProbe status in
        if \<not> includeLogProbe then
          (if \<not> Healthy status1 \<and> Reason status1 = []
           then status1\<lparr>Reason := ''probe_not_requested''\<rparr> else status1)
        else
          let filePath = trimmedStringPtr (LogFilePath server) in
          if SourceType status1 = LogSourceTypeLocal then
            probeLocalLogTransport w filePath status1
          else if SourceType status1 = LogSourceTypeSFTP then
            probeSFTPLogTransport w server filePath status1
          else if SourceType status1 = LogSourceTypeFTP then
            probeFTPLogTransport w server filePath status1
          else status1\<lparr>Healthy := False, Reason := ''unsupported_source_type''\<rparr>)"

subsection \<open>Game port check\<close>

definition checkUDPPort :: "world \<Rightarrow> string \<Rightarrow> go_int \<Rightarrow> bool" where
  "checkUDPPort w ipAddress port =
     (let address = JoinHostPort ipAddress (Itoa port) in
      case net_DialTimeout w ''udp'' address statusUDPProbeTimeout of
        Some err \<Rightarrow> False
      | None \<Rightarrow>
          (case conn_SetDeadline w address statusUDPProbeTimeout of
             Some err \<Rightarrow> False
           | None \<Rightarrow>
               (case conn_Write w address [0] of
                  Some err \<Rightarrow> False
                | None \<Rightarrow>
                    (case conn_Read w address of
                       None \<Rightarrow> True
                     | Some err \<Rightarrow> if Timeout err then True else False))))"

subsection \<open>Reason strings\<close>

text \<open>The twelve reason strings that the specification enumerates.\<close>

definition enumerated_reasons :: "string set" where
  "enumerated_reasons =
     {''permission_denied'', ''authentication_failed'', ''log_file_not_found'', ''timeout'',
      ''connection_failed'', ''probe_failed'', ''missing_credentials'',
      ''log_path_is_directory'', ''unsupported_source_type'', ''not_configured'',
      ''probe_not_requested'', ''logwatcher_disconnected''}"

text \<open>The string literals that the probe functions assign to \<open>Reason\<close> on a failure.\<close>

definition probe_reasons :: "string set" where
  "probe_reasons =
     {''permission_denied'', ''authentication_failed'', ''log_file_not_found'', ''timeout'',
      ''connection_failed'', ''probe_failed'', ''missing_sftp_credentials'',
      ''missing_ftp_credentials'', ''log_path_is_directory'', ''unsupported_source_type'',
      ''not_configured'', ''probe_not_requested'', ''logwatcher_disconnected''}"

subsection \<open>Two worlds to run the probes in\<close>

text \<open>A world where every file is missing and every connection is refused.\<close>

definition unreachable_world :: world where
  "unreachable_world =
     \<lparr>os_Stat = (\<lambda>path. Inl (GoError ''stat: no such file or directory'' False False)),
      os_Open = (\<lambda>path. Some (GoError ''open: no such file or directory'' False False)),
      file_Read = (\<lambda>path. Some (GoError ''read: bad file descriptor'' False False)),
      ssh_Dial = (\<lambda>network addr user password.
         Some (GoError ''dial tcp: connect: connection refused'' False False)),
      sftp_NewClient = (\<lambda>addr. Some (GoError ''EOF'' True False)),
      sftp_Stat = (\<lambda>addr path. Some (GoError ''file does not exist'' False False)),
      ftp_Dial = (\<lambda>addr timeout.
         Some (GoError ''dial tcp: connect: connection refused'' False False)),
      ftp_Login = (\<lambda>addr user password. Some (GoError ''530 Login incorrect'' False False)),
      ftp_FileSize = (\<lambda>addr path. Some (GoError ''550 Could not get file size'' False False)),
      net_DialTimeout = (\<lambda>network addr timeout.
         Some (GoError ''dial udp: lookup failed'' False False)),
      conn_SetDeadline = (\<lambda>addr timeout. Some (GoError ''use of closed network connection'' False False)),
      conn_Write = (\<lambda>addr bytes. Some (GoError ''write: connection refused'' False False)),
      conn_Read = (\<lambda>addr. Some (GoError ''read: connection refused'' False False))\<rparr>"

text \<open>
  A world where every call succeeds, except that nothing ever answers a datagram: the
  read on the UDP connection runs into its deadline.
\<close>

definition quiet_world :: world where
  "quiet_world =
     \<lparr>os_Stat = (\<lambda>path. Inr False),
      os_Open = (\<lambda>path. None),
      file_Read = (\<lambda>path. None),
      ssh_Dial = (\<lambda>network addr user password. None),
      sftp_NewClient = (\<lambda>addr. None),
      sftp_Stat = (\<lambda>addr path. None),
      ftp_Dial = (\<lambda>addr timeout. None),
      ftp_Login = (\<lambda>addr user password. None),
      ftp_FileSize = (\<lambda>addr path. None),
      net_DialTimeout = (\<lambda>network addr timeout. None),
      conn_SetDeadline = (\<lambda>addr timeout. None),
      conn_Write = (\<lambda>addr bytes. None),
      conn_Read = (\<lambda>addr. Some (GoError ''read udp: i/o timeout'' False True))\<rparr>"

text \<open>
  A status is well formed when a healthy status has no reason and an unhealthy one has
  one of the reason strings of the probe functions.
\<close>

definition reason_fits :: "logTransportStatus \<Rightarrow> bool" where
  "reason_fits status = (Reason status \<in> (if Healthy status then {[]} else probe_reasons))"

section \<open>Example configurations\<close>

definition local_config :: LogSourceConfig where
  "local_config =
     \<lparr>Type = ''local'', FilePath = ''/srv/squad/SquadGame.log'', Host = [], Port = 0,
      Username = [], Password = [], PollFrequency = 0, ReadFromStart = False\<rparr>"

definition sftp_config :: LogSourceConfig where
  "sftp_config =
     \<lparr>Type = ''sftp'', FilePath = ''/SquadGame/Saved/Logs/SquadGame.log'',
      Host = ''203.0.113.7'', Port = 0, Username = ''squad'', Password = ''secret'',
      PollFrequency = 0, ReadFromStart = False\<rparr>"

text \<open>The same remote configuration with the password left out.\<close>

definition sftp_config_no_password :: LogSourceConfig where
  "sftp_config_no_password = sftp_config\<lparr>Password := []\<rparr>"

text \<open>The registry after server 1 has been connected to a local log file.\<close>

definition connected_manager :: LogwatcherManager where
  "connected_manager =
     snd (ConnectToServer NewLogwatcherManager 1 local_config (fixed_clock 1000))"

text \<open>
  The registry after server 1 has been connected, disconnected, and then reconnected
  in vain (the configuration lacks the password) at second 2000.
\<close>

definition backing_off_manager :: LogwatcherManager where
  "backing_off_manager =
     snd (run_calls 1 NewLogwatcherManager
            [Connect local_config (fixed_clock 1000),
             Disconnect,
             Connect sftp_config_no_password (fixed_clock (2000 * Second))])"

text \<open>A server row whose log source is remote but names no host and no credentials.\<close>

definition server_without_credentials :: Server where
  "server_without_credentials =
     \<lparr>Id = 1, IpAddress = ''203.0.113.7'', GamePort = 7787,
      LogSourceType = Some ''sftp'',
      LogFilePath = Some ''/SquadGame/Saved/Logs/SquadGame.log'',
      LogHost = None, LogPort = None, LogUsername = None, LogPassword = None\<rparr>"

section \<open>Properties of the backoff delay\<close>

lemma wrap64_id: "- (2 ^ 63) \<le> x \<Longrightarrow> x < 2 ^ 63 \<Longrightarrow> wrap64 x = x"
  by (simp add: wrap64_def)

lemma calculateReconnectDelay_le_max: "calculateReconnectDelay n \<le> maxDelay"
  by (simp add: calculateReconnectDelay_def Let_def maxDelay_def Second_def)

text \<open>
  C7. The delay is 0 for attempt count 0 and 5 s, 10 s, 20 s and 40 s for the attempt
  counts 1, 2, 3 and 4.
\<close>

theorem backoff_table_first_attempts:
  "calculateReconnectDelay 0 = 0 \<and>
   calculateReconnectDelay 1 = 5 * Second \<and>
   calculateReconnectDelay 2 = 10 * Second \<and>
   calculateReconnectDelay 3 = 20 * Second \<and>
   calculateReconnectDelay 4 = 40 * Second"
  by (simp add: calculateReconnectDelay_def baseDelay_def maxDelay_def Second_def
      shl64_def uint_conv_def wrap64_def)

text \<open>
  As long as the product \<open>baseDelay * 2 ^ (attempts - 1)\<close> fits into 64 bits, that is up
  to 31 attempts, the cap of 60 s applies.
\<close>

lemma backoff_capped_up_to_31:
  assumes "5 \<le> n" and "n \<le> 31"
  shows "calculateReconnectDelay n = 60 * Second"
proof -
  define k where "k = nat (n - 1)"
  have k: "4 \<le> k" "k \<le> 30"
    using assms by (simp_all add: k_def)
  have w: "wrap64 (n - 1) = n - 1"
    using assms by (intro wrap64_id) simp_all
  have u: "uint_conv (n - 1) = k"
    using assms by (simp add: uint_conv_def k_def)
  have lo: "(2::int) ^ 4 \<le> 2 ^ k"
    using k by (intro power_increasing) simp_all
  have hi: "(2::int) ^ k \<le> 2 ^ 30"
    using k by (intro power_increasing) simp_all
  have "wrap64 (2 ^ k) = 2 ^ k"
    using hi lo by (intro wrap64_id) simp_all
  then have s: "shl64 1 k = 2 ^ k"
    using k by (simp add: shl64_def)
  have p: "wrap64 (baseDelay * 2 ^ k) = baseDelay * 2 ^ k"
    using lo hi by (intro wrap64_id) (simp_all add: baseDelay_def Second_def)
  have m: "maxDelay < baseDelay * 2 ^ k"
    using lo by (simp add: baseDelay_def maxDelay_def Second_def)
  have n0: "n \<noteq> 0"
    using assms by simp
  show ?thesis
    unfolding calculateReconnectDelay_def w u s p Let_def
    using m n0 by (simp add: maxDelay_def)
qed

text \<open>
  C3. For every attempt count of 5 or more the delay is the cap of 60 s, and the delay
  never decreases as the attempt count grows. The function evaluated at 31 and at 32
  attempts: at 32 the product \<open>5000000000 * 2 ^ 31\<close> exceeds the range of \<open>int64\<close> and
  wraps to a negative duration, which the comparison with the cap lets through.
\<close>

theorem backoff_delay_wraps_at_32:
  "calculateReconnectDelay 31 = 60 * Second \<and>
   calculateReconnectDelay 32 = - 7709325833709551616 \<and>
   calculateReconnectDelay 32 < calculateReconnectDelay 31"
  by (simp add: calculateReconnectDelay_def baseDelay_def maxDelay_def Second_def
      shl64_def uint_conv_def wrap64_def)

section \<open>Properties of log source construction\<close>

lemmas LogSourceType_defs = LogSourceTypeLocal_def LogSourceTypeSFTP_def LogSourceTypeFTP_def



text \<open>
  C4, as stated: a remote configuration whose poll frequency lies outside 1 s to 300 s is
  rejected. It is not: with a poll frequency of 1000 s construction succeeds and the
  source gets the 1000 s.
\<close>

theorem poll_frequency_1000s_counterexample:
  "createLogSource (sftp_config\<lparr>PollFrequency := 1000 * Second\<rparr>) =
     Inr (NewSFTPSource ''203.0.113.7'' 22 ''squad'' ''secret''
            ''/SquadGame/Saved/Logs/SquadGame.log'' (1000 * Second) False)"
  by (simp add: createLogSource_def sftp_config_def LogSourceType_defs Second_def)

text \<open>
  C4, amended. Log source construction puts no bound on the poll frequency: whether it
  succeeds does not depend on the poll frequency, and for a remote configuration with
  all required fields every poll frequency other than zero, whatever its size or sign,
  is handed to the source as it is.
\<close>

theorem createLogSource_poll_frequency_unbounded:
  "((\<exists>err. createLogSource (config\<lparr>PollFrequency := p\<rparr>) = Inl err) \<longleftrightarrow>
      (\<exists>err. createLogSource config = Inl err)) \<and>
   ((Type config = LogSourceTypeSFTP \<or> Type config = LogSourceTypeFTP) \<and>
      Host config \<noteq> [] \<and> Username config \<noteq> [] \<and> Password config \<noteq> [] \<and>
      FilePath config \<noteq> [] \<and> PollFrequency config \<noteq> 0 \<longrightarrow>
      createLogSource config =
        Inr ((if Type config = LogSourceTypeSFTP then NewSFTPSource else NewFTPSource)
               (Host config)
               (if Port config \<noteq> 0 then Port config
                else if Type config = LogSourceTypeSFTP then 22 else 21)
               (Username config) (Password config) (FilePath config)
               (PollFrequency config) (ReadFromStart config)))"
  by (auto simp add: createLogSource_def LogSourceType_defs Let_def)

theorem createLogSource_poll_frequency_unbounded_witness:
  "createLogSource (sftp_config\<lparr>Type := ''ftp'', PollFrequency := 500 * Millisecond\<rparr>) =
     Inr (NewFTPSource ''203.0.113.7'' 21 ''squad'' ''secret''
            ''/SquadGame/Saved/Logs/SquadGame.log'' (500 * Millisecond) False)"
  using createLogSource_poll_frequency_unbounded
    [where config = "sftp_config\<lparr>Type := ''ftp'', PollFrequency := 500 * Millisecond\<rparr>"
       and p = 0]
  by (simp add: sftp_config_def LogSourceType_defs Millisecond_def)

section \<open>Properties of the registry\<close>

lemmas example_defs =
  local_config_def sftp_config_def sftp_config_no_password_def fixed_clock_def
  NewLogwatcherManager_def connected_manager_def backing_off_manager_def

lemmas manager_defs =
  ConnectToServer_def DisconnectFromServer_def stop_connection_def createLogSource_def
  LogSourceTypeLocal_def LogSourceTypeSFTP_def LogSourceTypeFTP_def

lemmas delay_defs =
  calculateReconnectDelay_def baseDelay_def maxDelay_def Second_def shl64_def
  uint_conv_def wrap64_def Since_def Time_Sub_def maxDuration_def minDuration_def




text \<open>
  C6. A connect call for a server whose record is disconnected, made before the backoff
  delay for the record's attempt count has passed since the last reconnect, fails with
  the error that carries the remaining duration, and leaves the registry as it was:
  neither the attempt count nor the time of the last reconnect, the config, the log
  source or the connected flag change. The remaining duration is the delay minus the
  time passed at the second reading of the clock; when the clock is not behind the last
  reconnect, that difference is exact.
\<close>

theorem connect_during_backoff_is_delayed:
  assumes "connections m serverID = Some conn" and "\<not> Connected conn"
    and "Since (clock 0) (lastReconnectTime conn)
           < calculateReconnectDelay (reconnectAttempts conn)"
  shows "ConnectToServer m serverID config clock =
           (Some (ReconnectionDelayed
              (wrap64 (calculateReconnectDelay (reconnectAttempts conn)
                        - Since (clock 1) (lastReconnectTime conn)))), m) \<and>
         (lastReconnectTime conn \<le> clock 0 \<and> lastReconnectTime conn \<le> clock 1 \<longrightarrow>
            wrap64 (calculateReconnectDelay (reconnectAttempts conn)
                     - Since (clock 1) (lastReconnectTime conn))
            = calculateReconnectDelay (reconnectAttempts conn)
                - Since (clock 1) (lastReconnectTime conn))"
proof (intro conjI impI)
  show "ConnectToServer m serverID config clock =
          (Some (ReconnectionDelayed
             (wrap64 (calculateReconnectDelay (reconnectAttempts conn)
                       - Since (clock 1) (lastReconnectTime conn)))), m)"
    using assms by (simp add: ConnectToServer_def Let_def)
next
  assume later: "lastReconnectTime conn \<le> clock 0 \<and> lastReconnectTime conn \<le> clock 1"
  have a: "0 \<le> Since (clock 0) (lastReconnectTime conn)"
    using later by (simp add: Since_def Time_Sub_def maxDuration_def minDuration_def)
  have b: "0 \<le> Since (clock 1) (lastReconnectTime conn)"
    "Since (clock 1) (lastReconnectTime conn) < 2 ^ 63"
    using later by (simp_all add: Since_def Time_Sub_def maxDuration_def minDuration_def)
  have c: "0 < calculateReconnectDelay (reconnectAttempts conn)"
    using a assms(3) by simp
  have d: "calculateReconnectDelay (reconnectAttempts conn) \<le> 60000000000"
    using calculateReconnectDelay_le_max [of "reconnectAttempts conn"]
    by (simp add: maxDelay_def Second_def)
  show "wrap64 (calculateReconnectDelay (reconnectAttempts conn)
                 - Since (clock 1) (lastReconnectTime conn))
        = calculateReconnectDelay (reconnectAttempts conn)
            - Since (clock 1) (lastReconnectTime conn)"
    using b c d by (intro wrap64_id) simp_all
qed

theorem connect_during_backoff_is_delayed_witness:
  "map_option reconnectAttempts (connections backing_off_manager 1) = Some 1 \<and>
   map_option Connected (connections backing_off_manager 1) = Some False \<and>
   ConnectToServer backing_off_manager 1 local_config (fixed_clock (2002 * Second)) =
     (Some (ReconnectionDelayed (3 * Second)), backing_off_manager)"
  using connect_during_backoff_is_delayed
    [of backing_off_manager 1 "the (connections backing_off_manager 1)"
        "fixed_clock (2002 * Second)" local_config]
  by (simp add: example_defs manager_defs delay_defs)

text \<open>
  The outcomes of a disconnect: it fails with the not-found error exactly when the
  registry has no record for the server, and with the already-disconnected error
  exactly when the record is there with \<open>Connected = false\<close>; both leave the
  registry as it was. Otherwise it succeeds: it calls the record's cancel function,
  closes the record's log source and sets \<open>Connected\<close> to false.
\<close>

lemma disconnect_outcome:
  "(fst (DisconnectFromServer m serverID) = Some (ErrorsNew ''server log connection not found'')
      \<longleftrightarrow> connections m serverID = None) \<and>
   (fst (DisconnectFromServer m serverID)
        = Some (ErrorsNew ''server log connection already disconnected'')
      \<longleftrightarrow> (\<exists>conn. connections m serverID = Some conn \<and> \<not> Connected conn)) \<and>
   (fst (DisconnectFromServer m serverID) = None
      \<longleftrightarrow> (\<exists>conn. connections m serverID = Some conn \<and> Connected conn)) \<and>
   (fst (DisconnectFromServer m serverID) \<noteq> None \<longrightarrow>
      snd (DisconnectFromServer m serverID) = m) \<and>
   (\<forall>conn. connections m serverID = Some conn \<and> Connected conn \<longrightarrow>
      snd (DisconnectFromServer m serverID) =
        m\<lparr>connections := (connections m)(serverID \<mapsto>
             conn\<lparr>cancel_calls := Suc (cancel_calls conn),
                  closed_sources :=
                    closed_sources conn
                      @ (case LogSource conn of None \<Rightarrow> [] | Some src \<Rightarrow> [src]),
                  Connected := False\<rparr>)\<rparr>)"
  by (auto simp add: DisconnectFromServer_def stop_connection_def split: option.splits)

text \<open>
  The cancel function of a record belongs to the context made when the record was
  created. For a record whose latest watcher runs under that context, a successful
  disconnect leaves the watcher's context done.
\<close>

lemma disconnect_cancels_first_watcher:
  assumes "connections m serverID = Some conn" and "Connected conn"
    and "watchers conn \<noteq> []" and "fst (last (watchers conn)) = ConnectionCtx"
  shows "watcher_ctx_done (snd (DisconnectFromServer m serverID)) serverID"
  using assms
  by (simp add: DisconnectFromServer_def stop_connection_def watcher_ctx_done_def
      ctx_done_def)

text \<open>
  C8. Disconnecting fails with the not-found error exactly when there is no record, with
  the already-disconnected error exactly when the record is not connected, and
  otherwise cancels the watcher's context, closes the log source, sets
  \<open>Connected = false\<close> and succeeds. The calls connect, disconnect, connect,
  disconnect for one server, each without error: the second connect takes the reconnect
  branch, which starts the watcher under the manager's context and leaves the record's
  cancel function as it was. The last disconnect calls that cancel function a second
  time; the context of the running watcher is not done, as the context of the first
  watcher was after the first disconnect.
\<close>

theorem disconnect_after_reconnect_misses_watcher:
  "map snd (fst (run_calls 1 NewLogwatcherManager
        [Connect local_config (fixed_clock 1000), Disconnect,
         Connect local_config (fixed_clock 2000), Disconnect]))
     = [None, None, None, None] \<and>
   map_option watchers (connections (snd (run_calls 1 NewLogwatcherManager
        [Connect local_config (fixed_clock 1000), Disconnect,
         Connect local_config (fixed_clock 2000), Disconnect])) 1)
     = Some [(ConnectionCtx, NewLocalFileSource ''/srv/squad/SquadGame.log''),
             (ManagerCtx, NewLocalFileSource ''/srv/squad/SquadGame.log'')] \<and>
   map_option cancel_calls (connections (snd (run_calls 1 NewLogwatcherManager
        [Connect local_config (fixed_clock 1000), Disconnect,
         Connect local_config (fixed_clock 2000), Disconnect])) 1)
     = Some 2 \<and>
   watcher_ctx_done (snd (run_calls 1 NewLogwatcherManager
        [Connect local_config (fixed_clock 1000), Disconnect])) 1 \<and>
   \<not> watcher_ctx_done (snd (run_calls 1 NewLogwatcherManager
        [Connect local_config (fixed_clock 1000), Disconnect,
         Connect local_config (fixed_clock 2000), Disconnect])) 1"
  by (simp add: example_defs manager_defs delay_defs watcher_ctx_done_def ctx_done_def)

subsection \<open>Records are kept\<close>

lemma do_call_present:
  "record_present (snd (do_call sid m c)) sid \<longleftrightarrow>
     record_present m sid \<or> succeeded_connect (c, fst (do_call sid m c))"
  by (cases c)
     (auto simp add: record_present_def succeeded_connect_def ConnectToServer_def
        DisconnectFromServer_def Let_def split: option.splits sum.splits if_splits)

lemma run_calls_present:
  "record_present (snd (run_calls sid m cs)) sid \<longleftrightarrow>
     record_present m sid \<or> (\<exists>e \<in> set (fst (run_calls sid m cs)). succeeded_connect e)"
proof (induction cs arbitrary: m)
  case Nil
  then show ?case by simp
next
  case (Cons c cs)
  obtain err m' where step: "do_call sid m c = (err, m')"
    by (cases "do_call sid m c")
  obtain log m'' where rest: "run_calls sid m' cs = (log, m'')"
    by (cases "run_calls sid m' cs")
  have "record_present m'' sid \<longleftrightarrow>
          record_present m' sid \<or> (\<exists>e \<in> set log. succeeded_connect e)"
    using Cons.IH [of m'] rest by simp
  moreover have "record_present m' sid \<longleftrightarrow>
          record_present m sid \<or> succeeded_connect (c, err)"
    using do_call_present [of sid m c] step by simp
  ultimately show ?case
    using step rest by auto
qed

lemma status_after_disconnect:
  "fst (DisconnectFromServer m sid) = None \<Longrightarrow>
   \<exists>st. GetServerConnectionStatus (snd (DisconnectFromServer m sid)) sid = Inr st
          \<and> \<not> status_Connected st"
  by (auto simp add: DisconnectFromServer_def GetServerConnectionStatus_def
        stop_connection_def split: option.splits if_splits)

lemma status_unchanged_by_Shutdown:
  "GetServerConnectionStatus (Shutdown m) sid = GetServerConnectionStatus m sid"
  by (simp add: Shutdown_def GetServerConnectionStatus_def)

lemma status_after_cleanup:
  "record_present m sid \<Longrightarrow>
   \<exists>m' st. StartConnectionManager (Shutdown m) = Some m'
          \<and> GetServerConnectionStatus m' sid = Inr st \<and> \<not> status_Connected st"
  by (auto simp add: StartConnectionManager_def Shutdown_def cleanupAllConnections_def
        record_present_def GetServerConnectionStatus_def stop_connection_def
        split: option.split)

text \<open>
  C1, as stated: after any sequence of connect and disconnect calls for one server, the
  registry has a record for the server if and only if the last call was a connect that
  did not fail, and after a disconnect the status query says that the server is not
  found. It is not so after a connect followed by a disconnect: the record is still
  there, and the status query answers with \<open>Connected = false\<close>.
\<close>

theorem record_survives_disconnect_counterexample:
  "\<not> (record_present
        (snd (run_calls 1 NewLogwatcherManager
                [Connect local_config (fixed_clock 1000), Disconnect])) 1
      \<longleftrightarrow>
      succeeded_connect
        (last (fst (run_calls 1 NewLogwatcherManager
                      [Connect local_config (fixed_clock 1000), Disconnect])))) \<and>
   GetServerConnectionStatus
     (snd (run_calls 1 NewLogwatcherManager
             [Connect local_config (fixed_clock 1000), Disconnect])) 1
     = Inr \<lparr>status_Connected = False, status_Config = local_config, status_LastUsed = 1000\<rparr>"
  by (simp add: example_defs manager_defs record_present_def succeeded_connect_def
      GetServerConnectionStatus_def)

text \<open>
  C1, amended. After any sequence of connect and disconnect calls for one server on a
  new manager, the registry has a record for the server if and only if some connect
  call of the sequence did not fail. No call removes a record. After a successful
  disconnect the status query finds the record, with \<open>Connected = false\<close>.
  \<open>Shutdown\<close> only cancels the manager's context: the status query answers as it did
  before. The cleanup that \<open>StartConnectionManager\<close> runs once that context is
  cancelled keeps every record and leaves it with \<open>Connected = false\<close>.
\<close>

theorem record_lifecycle:
  "(record_present (snd (run_calls sid NewLogwatcherManager calls)) sid \<longleftrightarrow>
      (\<exists>e \<in> set (fst (run_calls sid NewLogwatcherManager calls)). succeeded_connect e)) \<and>
   (record_present m sid \<longrightarrow> record_present (snd (DisconnectFromServer m sid)) sid) \<and>
   (fst (DisconnectFromServer m sid) = None \<longrightarrow>
      (\<exists>st. GetServerConnectionStatus (snd (DisconnectFromServer m sid)) sid = Inr st
            \<and> \<not> status_Connected st)) \<and>
   GetServerConnectionStatus (Shutdown m) sid = GetServerConnectionStatus m sid \<and>
   (record_present m sid \<longrightarrow>
      (\<exists>m' st. StartConnectionManager (Shutdown m) = Some m'
            \<and> GetServerConnectionStatus m' sid = Inr st \<and> \<not> status_Connected st))"
proof (intro conjI impI)
  have "\<not> record_present NewLogwatcherManager sid"
    by (simp add: record_present_def NewLogwatcherManager_def)
  then show "record_present (snd (run_calls sid NewLogwatcherManager calls)) sid \<longleftrightarrow>
      (\<exists>e \<in> set (fst (run_calls sid NewLogwatcherManager calls)). succeeded_connect e)"
    using run_calls_present [of sid NewLogwatcherManager calls] by simp
next
  assume "record_present m sid"
  then show "record_present (snd (DisconnectFromServer m sid)) sid"
    using do_call_present [of sid m Disconnect] by simp
next
  assume "fst (DisconnectFromServer m sid) = None"
  then show "\<exists>st. GetServerConnectionStatus (snd (DisconnectFromServer m sid)) sid = Inr st
      \<and> \<not> status_Connected st"
    by (rule status_after_disconnect)
next
  show "GetServerConnectionStatus (Shutdown m) sid = GetServerConnectionStatus m sid"
    by (rule status_unchanged_by_Shutdown)
next
  assume "record_present m sid"
  then show "\<exists>m' st. StartConnectionManager (Shutdown m) = Some m'
      \<and> GetServerConnectionStatus m' sid = Inr st \<and> \<not> status_Connected st"
    by (rule status_after_cleanup)
qed

theorem record_lifecycle_witness:
  "record_present
     (snd (run_calls 1 NewLogwatcherManager
             [Connect local_config (fixed_clock 1000), Disconnect])) 1 \<and>
   fst (DisconnectFromServer connected_manager 1) = None \<and>
   record_present connected_manager 1 \<and>
   record_present (snd (DisconnectFromServer connected_manager 1)) 1 \<and>
   (\<exists>st. GetServerConnectionStatus (snd (DisconnectFromServer connected_manager 1)) 1 = Inr st
         \<and> \<not> status_Connected st) \<and>
   GetServerConnectionStatus (Shutdown connected_manager) 1
     = Inr \<lparr>status_Connected = True, status_Config = local_config, status_LastUsed = 1000\<rparr> \<and>
   (\<exists>m' st. StartConnectionManager (Shutdown connected_manager) = Some m'
         \<and> GetServerConnectionStatus m' 1 = Inr st \<and> \<not> status_Connected st)"
  using record_lifecycle
    [of 1 "[Connect local_config (fixed_clock 1000), Disconnect]" connected_manager]
  by (simp add: example_defs manager_defs record_present_def succeeded_connect_def
      GetServerConnectionStatus_def)

section \<open>Properties of the status probes\<close>

lemma mapProbeErrorReason_in: "mapProbeErrorReason (Some e) \<in> probe_reasons"
  by (simp add: mapProbeErrorReason_def probe_reasons_def Let_def)

lemma reason_fits_error: "reason_fits (probe_error st e)"
  using mapProbeErrorReason_in [of e] by (simp add: reason_fits_def probe_error_def)

lemma reason_fits_healthy: "reason_fits (probe_healthy st)"
  by (simp add: reason_fits_def probe_healthy_def)

lemma reason_fits_literal:
  "s \<in> probe_reasons \<Longrightarrow> reason_fits (st\<lparr>Healthy := False, Reason := s\<rparr>)"
  by (simp add: reason_fits_def)

lemma reason_fits_local: "reason_fits (probeLocalLogTransport w p st)"
  by (simp add: probeLocalLogTransport_def reason_fits_error reason_fits_healthy
      reason_fits_literal probe_reasons_def split: sum.split option.split)

lemma reason_fits_sftp: "reason_fits (probeSFTPLogTransport w srv p st)"
  by (simp add: probeSFTPLogTransport_def Let_def reason_fits_error reason_fits_healthy
      reason_fits_literal probe_reasons_def split: option.split)

lemma reason_fits_ftp: "reason_fits (probeFTPLogTransport w srv p st)"
  by (simp add: probeFTPLogTransport_def Let_def reason_fits_error reason_fits_healthy
      reason_fits_literal probe_reasons_def split: option.split)

lemma reason_fits_not_configured:
  "\<not> Enabled (buildBaseLogTransportStatus srv) \<Longrightarrow>
   reason_fits (buildBaseLogTransportStatus srv)"
  by (simp add: buildBaseLogTransportStatus_def Let_def reason_fits_def probe_reasons_def
      split: if_splits)

lemma reason_fits_without_probe:
  "Enabled (buildBaseLogTransportStatus srv) \<Longrightarrow>
   reason_fits
     (let status1 = consult_logwatcher lm i False (buildBaseLogTransportStatus srv)
      in if \<not> Healthy status1 \<and> Reason status1 = []
         then status1\<lparr>Reason := ''probe_not_requested''\<rparr> else status1)"
  by (auto simp add: buildBaseLogTransportStatus_def consult_logwatcher_def Let_def
        reason_fits_def probe_reasons_def split: option.split sum.split if_splits)

lemma reason_fits_test: "reason_fits (testLogTransportFunctionality w lm server includeLogProbe)"
proof (cases "Enabled (buildBaseLogTransportStatus server)")
  case False
  then show ?thesis
    using reason_fits_not_configured [of server]
    by (simp add: testLogTransportFunctionality_def Let_def)
next
  case en: True
  show ?thesis
  proof (cases includeLogProbe)
    case False
    then show ?thesis
      using reason_fits_without_probe [OF en, of lm "Id server"] en
      by (simp add: testLogTransportFunctionality_def Let_def)
  next
    case True
    then show ?thesis
      using en
      by (simp add: testLogTransportFunctionality_def Let_def reason_fits_local
          reason_fits_sftp reason_fits_ftp reason_fits_literal probe_reasons_def)
  qed
qed

lemmas probe_defs =
  testLogTransportFunctionality_def buildBaseLogTransportStatus_def trimmedStringPtr_def
  TrimSpace_def is_space_def ToLower_def lower_byte_def consult_logwatcher_def
  probeLocalLogTransport_def probeSFTPLogTransport_def probeFTPLogTransport_def
  probe_error_def probe_healthy_def probe_port_def mapProbeErrorReason_def
  JoinHostPort_def Itoa_def digits.simps

text \<open>
  C2, as stated: every reason string of the log transport probe is one of the twelve
  enumerated values. For a remote source without host and credentials the probe gives
  \<open>missing_sftp_credentials\<close>, which is not among them.
\<close>

theorem missing_sftp_credentials_counterexample:
  "Reason (testLogTransportFunctionality unreachable_world None server_without_credentials True)
     = ''missing_sftp_credentials'' \<and>
   Reason (testLogTransportFunctionality unreachable_world None server_without_credentials True)
     \<notin> enumerated_reasons"
  by (simp add: probe_defs LogSourceType_defs server_without_credentials_def
      enumerated_reasons_def)

text \<open>
  C2, amended. Every status of the log transport probe that is not healthy has one of
  thirteen reason strings: the enumerated ones, with \<open>missing_sftp_credentials\<close> and
  \<open>missing_ftp_credentials\<close> in place of \<open>missing_credentials\<close>; a healthy status has
  the empty reason.
\<close>

theorem probe_reason_values:
  "Reason (testLogTransportFunctionality w lm server includeLogProbe)
     \<in> (if Healthy (testLogTransportFunctionality w lm server includeLogProbe)
        then {[]}
        else {''permission_denied'', ''authentication_failed'', ''log_file_not_found'',
              ''timeout'', ''connection_failed'', ''probe_failed'',
              ''missing_sftp_credentials'', ''missing_ftp_credentials'',
              ''log_path_is_directory'', ''unsupported_source_type'', ''not_configured'',
              ''probe_not_requested'', ''logwatcher_disconnected''})"
proof -
  have "reason_fits (testLogTransportFunctionality w lm server includeLogProbe)"
    by (rule reason_fits_test)
  then show ?thesis
    unfolding reason_fits_def probe_reasons_def .
qed

theorem probe_reason_values_witness:
  "\<not> Healthy (testLogTransportFunctionality unreachable_world (Some connected_manager)
        (server_without_credentials\<lparr>LogSourceType := Some '' FTP '', LogHost := Some ''203.0.113.7'',
           LogUsername := Some ''squad'', LogPassword := Some ''secret''\<rparr>) True) \<and>
   Reason (testLogTransportFunctionality unreachable_world (Some connected_manager)
        (server_without_credentials\<lparr>LogSourceType := Some '' FTP '', LogHost := Some ''203.0.113.7'',
           LogUsername := Some ''squad'', LogPassword := Some ''secret''\<rparr>) True)
     = ''connection_failed''"
  using probe_reason_values [of unreachable_world "Some connected_manager"
      "server_without_credentials\<lparr>LogSourceType := Some '' FTP '', LogHost := Some ''203.0.113.7'',
           LogUsername := Some ''squad'', LogPassword := Some ''secret''\<rparr>" True]
  by (simp add: probe_defs server_without_credentials_def unreachable_world_def
      example_defs manager_defs GetServerConnectionStatus_def)

text \<open>
  C10. The game port check answers true exactly when dialling, setting the deadline and
  writing the one byte succeed and the read then either succeeds or fails with a
  timeout; so it answers true although no reply came, and false on a failed dial,
  deadline or write and on a read error that is no timeout.
\<close>

theorem checkUDPPort_true_iff:
  "checkUDPPort w ipAddress port \<longleftrightarrow>
     net_DialTimeout w ''udp'' (JoinHostPort ipAddress (Itoa port)) statusUDPProbeTimeout = None \<and>
     conn_SetDeadline w (JoinHostPort ipAddress (Itoa port)) statusUDPProbeTimeout = None \<and>
     conn_Write w (JoinHostPort ipAddress (Itoa port)) [0] = None \<and>
     (conn_Read w (JoinHostPort ipAddress (Itoa port)) = None \<or>
      (\<exists>err. conn_Read w (JoinHostPort ipAddress (Itoa port)) = Some err \<and> Timeout err))"
  by (auto simp add: checkUDPPort_def Let_def split: option.splits)

theorem checkUDPPort_true_iff_witness:
  "checkUDPPort quiet_world ''203.0.113.7'' 7787 \<and>
   conn_Read quiet_world (JoinHostPort ''203.0.113.7'' (Itoa 7787))
     = Some (GoError ''read udp: i/o timeout'' False True) \<and>
   \<not> checkUDPPort unreachable_world ''203.0.113.7'' 7787"
  using checkUDPPort_true_iff [of quiet_world "''203.0.113.7''" 7787]
    checkUDPPort_true_iff [of unreachable_world "''203.0.113.7''" 7787]
  by (simp add: quiet_world_def unreachable_world_def)

end
